theory Spec2Isabelle
  imports Main "HOL-Library.Word"
begin

section \<open>JavaScript values\<close>

text \<open>
  The values that \<open>JSON.parse\<close> yields, together with \<open>undefined\<close> (what reading
  an absent property gives). Numbers are the integer-valued ones: the request ids,
  context ids and ports the program handles are integers. A string is the list of its
  code units (8-bit characters here). An object is the association list of its own
  properties.
\<close>

datatype jsval =
    JUndefined
  | JNull
  | JBool bool
  | JNum int
  | JStr string
  | JArr "jsval list"
  | JObj "(string \<times> jsval) list"

text \<open>
  What is thrown: the two native errors the server can run into, the error of a socket
  that does not open, and the \<open>error\<close> of a reply, with which \<open>call\<close> rejects.
\<close>

datatype exn = SyntaxError | TypeError | NetworkError | Remote jsval

text \<open>Sequencing of computations that may throw.\<close>

definition bindE :: "exn + 'a \<Rightarrow> ('a \<Rightarrow> exn + 'b) \<Rightarrow> exn + 'b" where
  "bindE m f = (case m of Inl e \<Rightarrow> Inl e | Inr x \<Rightarrow> f x)"

definition nullish :: "jsval \<Rightarrow> bool" where
  "nullish v = (v = JUndefined \<or> v = JNull)"

text \<open>
  \<open>v.k\<close> for the property names the server reads (\<open>id\<close>, \<open>error\<close>, \<open>result\<close>,
  \<open>method\<close>, \<open>params\<close>, \<open>context\<close>, ...): none of them is a built-in property of
  a number, string, boolean or array, so only an object can have one. Reading a property
  of \<open>null\<close> or \<open>undefined\<close> throws a TypeError.
\<close>

fun own :: "jsval \<Rightarrow> string \<Rightarrow> jsval" where
  "own (JObj kvs) k = (case map_of kvs k of None \<Rightarrow> JUndefined | Some v \<Rightarrow> v)"
| "own _ k = JUndefined"

definition get_prop :: "jsval \<Rightarrow> string \<Rightarrow> exn + jsval" where
  "get_prop v k = (if nullish v then Inl TypeError else Inr (own v k))"

text \<open>\<open>v?.k\<close>: \<open>undefined\<close> when \<open>v\<close> is \<open>null\<close> or \<open>undefined\<close>.\<close>

definition opt_prop :: "jsval \<Rightarrow> string \<Rightarrow> jsval" where
  "opt_prop v k = (if nullish v then JUndefined else own v k)"

fun truthy :: "jsval \<Rightarrow> bool" where
  "truthy JUndefined = False"
| "truthy JNull = False"
| "truthy (JBool b) = b"
| "truthy (JNum n) = (n \<noteq> 0)"
| "truthy (JStr s) = (s \<noteq> [])"
| "truthy (JArr _) = True"
| "truthy (JObj _) = True"

text \<open>
  \<open>a === b\<close>. Primitives compare by value. Arrays and objects compare by reference;
  wherever the server compares two values they come from different messages (or one is a
  number or string literal of the program), so two arrays or objects are never the same
  reference.
\<close>

fun strict_eq :: "jsval \<Rightarrow> jsval \<Rightarrow> bool" where
  "strict_eq JUndefined JUndefined = True"
| "strict_eq JNull JNull = True"
| "strict_eq (JBool a) (JBool b) = (a = b)"
| "strict_eq (JNum a) (JNum b) = (a = b)"
| "strict_eq (JStr a) (JStr b) = (a = b)"
| "strict_eq _ _ = False"

text \<open>
  Whether \<open>v\<close> can be converted to a string, as a template literal \<open>`${v}`\<close> does.
  An object is converted by its \<open>toString\<close>: one inherited gives \<open>[object Object]\<close>,
  but a property \<open>toString\<close> of its own is a parsed value, not a function, and the
  conversion throws a TypeError. An array is converted element by element. Every other
  value has a string.
\<close>

fun to_string_ok :: "jsval \<Rightarrow> bool" and all_to_string_ok :: "jsval list \<Rightarrow> bool" where
  "to_string_ok (JArr xs) = all_to_string_ok xs"
| "to_string_ok (JObj kvs) = (map_of kvs ''toString'' = None)"
| "to_string_ok JUndefined = True"
| "to_string_ok JNull = True"
| "to_string_ok (JBool b) = True"
| "to_string_ok (JNum n) = True"
| "to_string_ok (JStr s) = True"
| "all_to_string_ok [] = True"
| "all_to_string_ok (x # xs) = (to_string_ok x \<and> all_to_string_ok xs)"

section \<open>The protocol client: \<open>connectCDP\<close>\<close>

text \<open>
  A text received (a WebSocket message, an HTTP body), by what \<open>JSON.parse\<close> does with
  it: it throws a SyntaxError, or returns the parsed value.
\<close>

datatype payload = Garbled | Json jsval

fun JSON_parse :: "payload \<Rightarrow> exn + jsval" where
  "JSON_parse Garbled = Inl SyntaxError"
| "JSON_parse (Json v) = Inr v"

text \<open>How the promise returned by \<open>call\<close> was settled.\<close>

datatype outcome = Resolved jsval | Rejected jsval

text \<open>
  The state that \<open>connectCDP\<close> creates around one socket: the socket (a handle into the
  table of sockets), the closure variable \<open>idCounter\<close>, the per-call \<open>message\<close>
  listeners still registered on the socket (by the id each one waits for, in registration
  order: the slots of the calls in flight), the promises of the calls made so far (by id;
  \<open>None\<close> while a promise is unsettled), the frames handed to \<open>ws.send\<close>, the array
  \<open>contexts\<close> and the field \<open>rootContextId\<close>. \<open>idCounter\<close> is a natural number: the
  2^53 calls after which a JavaScript number stops counting are out of reach.
\<close>

record cdp =
  ws :: nat
  idCounter :: nat
  handlers :: "nat list"
  promises :: "nat \<Rightarrow> outcome option"
  outbox :: "jsval list"
  contexts :: "jsval list"
  rootContextId :: jsval

text \<open>\<open>resolve\<close> and \<open>reject\<close>: settling a settled promise does nothing.\<close>

definition settle :: "nat \<Rightarrow> outcome \<Rightarrow> cdp \<Rightarrow> cdp" where
  "settle i out c =
     (case promises c i of
        None \<Rightarrow> c\<lparr>promises := (promises c)(i \<mapsto> out)\<rparr>
      | Some _ \<Rightarrow> c)"

text \<open>
  \<open>call(method, params)\<close> (lines 64-76): takes the next id, registers the listener
  \<open>handler\<close> for it and sends the frame. It returns the id, by which the promise is
  found in \<open>promises\<close>. No timer is set and no \<open>close\<close> listener is registered.
\<close>

definition call :: "string \<Rightarrow> jsval \<Rightarrow> cdp \<Rightarrow> nat \<times> cdp" where
  "call method params c =
     (let i = idCounter c in
      (i, c\<lparr>idCounter := i + 1,
            handlers := handlers c @ [i],
            outbox := outbox c @
              [JObj [(''id'', JNum (int i)), (''method'', JStr method), (''params'', params)]]\<rparr>))"

text \<open>
  The listener \<open>handler\<close> of the call with id \<open>i\<close> (lines 66-73). \<open>JSON.parse\<close> is
  not guarded here: a message that does not parse, or parses to \<open>null\<close>, makes the
  listener throw.
\<close>

definition handler :: "nat \<Rightarrow> payload \<Rightarrow> cdp \<Rightarrow> exn + cdp" where
  "handler i msg c =
     bindE (JSON_parse msg) (\<lambda>data.
     bindE (get_prop data ''id'') (\<lambda>v.
       if strict_eq v (JNum (int i)) then
         (let c' = c\<lparr>handlers := remove1 i (handlers c)\<rparr> in
          if truthy (own data ''error'') then Inr (settle i (Rejected (own data ''error'')) c')
          else Inr (settle i (Resolved (own data ''result'')) c'))
       else Inr c))"

text \<open>\<open>contexts.findIndex(pred)\<close>: the first index whose element satisfies, or -1.\<close>

fun findIndex :: "('a \<Rightarrow> exn + bool) \<Rightarrow> 'a list \<Rightarrow> exn + int" where
  "findIndex p [] = Inr (- 1)"
| "findIndex p (x # xs) =
     bindE (p x) (\<lambda>b.
       if b then Inr 0
       else bindE (findIndex p xs) (\<lambda>k. Inr (if k = - 1 then - 1 else k + 1)))"

text \<open>\<open>xs.splice(idx, 1)\<close> for an index within the array.\<close>

definition splice1 :: "nat \<Rightarrow> 'a list \<Rightarrow> 'a list" where
  "splice1 idx xs = take idx xs @ drop (Suc idx) xs"

text \<open>
  The context listener (lines 79-89), registered before any call. Its body runs inside
  \<open>try\<close>; the arrays are only changed by the last statement of a branch, so a throw
  leaves the state as it was.
\<close>

definition tracker_body :: "payload \<Rightarrow> cdp \<Rightarrow> exn + cdp" where
  "tracker_body msg c =
     bindE (JSON_parse msg) (\<lambda>data.
     bindE (get_prop data ''method'') (\<lambda>m.
       if strict_eq m (JStr ''Runtime.executionContextCreated'') then
         bindE (get_prop (own data ''params'') ''context'') (\<lambda>ctx.
           Inr (c\<lparr>contexts := contexts c @ [ctx]\<rparr>))
       else if strict_eq m (JStr ''Runtime.executionContextDestroyed'') then
         bindE (get_prop (own data ''params'') ''executionContextId'') (\<lambda>x.
         bindE (findIndex (\<lambda>d. bindE (get_prop d ''id'') (\<lambda>v. Inr (strict_eq v x))) (contexts c))
           (\<lambda>idx.
             if idx \<noteq> - 1 then Inr (c\<lparr>contexts := splice1 (nat idx) (contexts c)\<rparr>)
             else Inr c))
       else Inr c))"

definition tracker :: "payload \<Rightarrow> cdp \<Rightarrow> cdp" where
  "tracker msg c = (case tracker_body msg c of Inl e \<Rightarrow> c | Inr c' \<Rightarrow> c')"

text \<open>
  A \<open>message\<close> event: the emitter calls the listeners registered when the event is
  emitted, in registration order: the context listener first, then the listener of each
  call in flight. A listener that throws ends the dispatch with an uncaught exception.
\<close>

fun run_handlers :: "nat list \<Rightarrow> payload \<Rightarrow> cdp \<Rightarrow> exn + cdp" where
  "run_handlers [] msg c = Inr c"
| "run_handlers (i # is) msg c = bindE (handler i msg c) (run_handlers is msg)"

definition on_message :: "payload \<Rightarrow> cdp \<Rightarrow> exn + cdp" where
  "on_message msg c = run_handlers (handlers c) msg (tracker msg c)"

text \<open>
  What can happen to an open session: a message arrives, the connection closes, the
  socket reports an error, or time passes. After the handshake \<open>connectCDP\<close> has
  listeners for \<open>message\<close> only: nothing of the session runs on \<open>close\<close>, the
  \<open>error\<close> listener left from the handshake rejects a promise that is settled already,
  and \<open>call\<close> arms no timer, so the passing of time runs nothing either.
\<close>

datatype event = Message payload | Closed | Errored | TimePassed nat

fun on_event :: "event \<Rightarrow> cdp \<Rightarrow> exn + cdp" where
  "on_event (Message msg) c = on_message msg c"
| "on_event Closed c = Inr c"
| "on_event Errored c = Inr c"
| "on_event (TimePassed ms) c = Inr c"

fun run :: "event list \<Rightarrow> cdp \<Rightarrow> exn + cdp" where
  "run [] c = Inr c"
| "run (e # es) c = bindE (on_event e c) (run es)"

text \<open>
  The session as \<open>connectCDP\<close> has it once the socket \<open>h\<close> is open and before its
  first call (lines 57-78): \<open>idCounter = 1\<close>, no call in flight, no context known.
\<close>

definition new_session :: "nat \<Rightarrow> cdp" where
  "new_session h =
     \<lparr>ws = h, idCounter = 1, handlers = [], promises = (\<lambda>i. None), outbox = [],
      contexts = [], rootContextId = JNull\<rparr>"

text \<open>
  An event is a frame of the protocol when, if it is a message, its text parses to a
  value other than \<open>null\<close>; it answers the call \<open>i\<close> when it is a message whose
  \<open>id\<close> is \<open>i\<close>.
\<close>

fun is_frame :: "event \<Rightarrow> bool" where
  "is_frame (Message Garbled) = False"
| "is_frame (Message (Json d)) = (\<not> nullish d)"
| "is_frame e = True"

fun answers :: "nat \<Rightarrow> event \<Rightarrow> bool" where
  "answers i (Message (Json d)) = strict_eq (own d ''id'') (JNum (int i))"
| "answers i e = False"

fun is_message :: "event \<Rightarrow> bool" where
  "is_message (Message m) = True"
| "is_message e = False"

text \<open>A session with one call in flight: the first call on a fresh session.\<close>

definition one_call :: cdp where
  "one_call = snd (call ''Runtime.enable'' (JObj []) (new_session 0))"




text \<open>A call is pending while its listener is registered and its promise unsettled.\<close>

definition pending :: "cdp \<Rightarrow> nat \<Rightarrow> bool" where
  "pending c i = (i \<in> set (handlers c) \<and> promises c i = None)"

section \<open>The fingerprint: \<open>hashString\<close>\<close>

text \<open>
  The loop of \<open>hashString\<close> (lines 27-32) on a string. \<open>hash << 5\<close> and
  \<open>hash & hash\<close> bring the value to 32 bits, so the accumulator is a 32-bit word; a
  character is its code unit (\<open>charCodeAt\<close>).
\<close>

definition hash_step :: "32 word \<Rightarrow> char \<Rightarrow> 32 word" where
  "hash_step h ch = (push_bit 5 h - h) + of_nat (of_char ch)"

definition hash_code :: "string \<Rightarrow> 32 word" where
  "hash_code str = foldl hash_step 0 str"

text \<open>\<open>n.toString(36)\<close> for an integer.\<close>

definition digit36 :: "nat \<Rightarrow> char" where
  "digit36 d = ''0123456789abcdefghijklmnopqrstuvwxyz'' ! d"

fun digits36 :: "nat \<Rightarrow> string" where
  "digits36 n = (if n < 36 then [digit36 n] else digits36 (n div 36) @ [digit36 (n mod 36)])"

definition toString36 :: "int \<Rightarrow> string" where
  "toString36 n = (if n < 0 then CHR ''-'' # digits36 (nat (- n)) else digits36 (nat n))"

text \<open>
  The loop test \<open>0 < str.length\<close> when \<open>str\<close> is an object and \<open>length\<close> one of
  its properties. A \<open>length\<close> that is itself a string, an array or an object would be
  converted to a number first; that conversion is outside the model and such a value
  counts as not positive.
\<close>

fun positive :: "jsval \<Rightarrow> bool" where
  "positive (JNum n) = (0 < n)"
| "positive (JBool b) = b"
| "positive _ = False"

text \<open>
  \<open>hashString(str)\<close> by what \<open>str\<close> is. For a string, the loop. \<open>undefined\<close> and
  \<open>null\<close> have no \<open>length\<close>: a TypeError. A number or boolean has \<open>length\<close>
  \<open>undefined\<close>, the loop does not run and the hash is that of 0. An array or an object
  whose length is positive enters the loop, where \<open>str.charCodeAt\<close> is not a function.
\<close>

fun hashString :: "jsval \<Rightarrow> exn + string" where
  "hashString (JStr str) = Inr (toString36 (sint (hash_code str)))"
| "hashString JUndefined = Inl TypeError"
| "hashString JNull = Inl TypeError"
| "hashString (JNum n) = Inr (toString36 0)"
| "hashString (JBool b) = Inr (toString36 0)"
| "hashString (JArr xs) = (if xs = [] then Inr (toString36 0) else Inl TypeError)"
| "hashString (JObj kvs) =
     (if positive (own (JObj kvs) ''length'') then Inl TypeError else Inr (toString36 0))"

section \<open>Awaiting a call\<close>

text \<open>
  What an asynchronous function does: it returns, it throws, it waits for ever on a
  promise that is never settled, or a listener throws outside any \<open>try\<close> while it waits
  (an uncaught exception of the process).
\<close>

datatype 'a res = Done 'a | Throws exn | Hangs | Crashes exn

definition bindR :: "'a res \<Rightarrow> ('a \<Rightarrow> 'b res) \<Rightarrow> 'b res" where
  "bindR m f =
     (case m of Done x \<Rightarrow> f x | Throws e \<Rightarrow> Throws e | Hangs \<Rightarrow> Hangs | Crashes e \<Rightarrow> Crashes e)"

datatype ready_state = CONNECTING | OPEN | CLOSING | CLOSED

text \<open>
  The network around the server: every WebSocket it has created (its URL and its
  \<open>readyState\<close>; a socket's handle is its index), the events still to come, and the
  outcomes of the connection attempts still to come (\<open>True\<close>: the socket opens). The
  server awaits one thing at a time; \<open>feed\<close> lists, for each wait in turn, the events
  that reach the awaited session until the wait ends (or for ever, when it does not).
\<close>

record net =
  socks :: "(jsval \<times> ready_state) list"
  feed :: "event list list"
  dials :: "bool list"

definition set_state :: "nat \<Rightarrow> ready_state \<Rightarrow> net \<Rightarrow> net" where
  "set_state h st n =
     (if h < length (socks n) then n\<lparr>socks := (socks n)[h := (fst (socks n ! h), st)]\<rparr> else n)"

definition is_open :: "net \<Rightarrow> nat \<Rightarrow> bool" where
  "is_open n h = (h < length (socks n) \<and> snd (socks n ! h) = OPEN)"

text \<open>
  The next batch of events reaches the session \<open>c\<close>: its listeners run on each, and a
  \<open>Closed\<close> among them leaves the socket closed.
\<close>

definition receive :: "cdp \<Rightarrow> net \<Rightarrow> (cdp \<times> net) res" where
  "receive c n =
     (let batch = (case feed n of [] \<Rightarrow> [] | b # bs \<Rightarrow> b);
          n1 = n\<lparr>feed := tl (feed n)\<rparr>;
          n2 = (if Closed \<in> set batch then set_state (ws c) CLOSED n1 else n1)
      in case run batch c of Inl e \<Rightarrow> Crashes e | Inr c' \<Rightarrow> Done (c', n2))"

text \<open>
  \<open>await cdp.call(method, params)\<close>: the call is made, the next batch of events
  arrives, and the caller goes on with the value the promise was resolved with (\<open>Inr\<close>)
  or the error it was rejected with (\<open>Inl\<close>, thrown at the \<open>await\<close>); with the promise
  unsettled, the caller waits for ever.
\<close>

definition await_call :: "string \<Rightarrow> jsval \<Rightarrow> cdp \<Rightarrow> net \<Rightarrow> ((jsval + jsval) \<times> cdp \<times> net) res" where
  "await_call method params c n =
     (case call method params c of (i, c1) \<Rightarrow>
        bindR (receive c1 n) (\<lambda>(c2, n2).
          case promises c2 i of
            None \<Rightarrow> Hangs
          | Some (Resolved v) \<Rightarrow> Done (Inr v, c2, n2)
          | Some (Rejected e) \<Rightarrow> Done (Inl e, c2, n2)))"

section \<open>The evaluations: \<open>extractMetadata\<close>, \<open>captureCSS\<close>, \<open>captureHTML\<close>\<close>

text \<open>Setting a property of an object: in place when it has the key, at the end otherwise.\<close>

fun obj_set :: "string \<Rightarrow> jsval \<Rightarrow> (string \<times> jsval) list \<Rightarrow> (string \<times> jsval) list" where
  "obj_set k v [] = [(k, v)]"
| "obj_set k v ((k', v') # kvs) = (if k = k' then (k, v) # kvs else (k', v') # obj_set k v kvs)"

text \<open>
  The own properties \<open>{...v}\<close> copies. The server spreads objects only (a target that
  passed the filter, a found result, a metadata record).
\<close>

fun props :: "jsval \<Rightarrow> (string \<times> jsval) list" where
  "props (JObj kvs) = kvs"
| "props _ = []"

definition spread_with :: "jsval \<Rightarrow> (string \<times> jsval) list \<Rightarrow> jsval" where
  "spread_with v kvs = JObj (foldl (\<lambda>acc (k, x). obj_set k x acc) (props v) kvs)"

text \<open>
  The parameters of \<open>Runtime.evaluate\<close>. The three scripts run in the page; the server
  sees only what comes back, so a script is its name here.
\<close>

definition eval_params :: "string \<Rightarrow> jsval \<Rightarrow> jsval" where
  "eval_params script ctxId =
     JObj [(''expression'', JStr script), (''returnByValue'', JBool True), (''contextId'', ctxId)]"

text \<open>\<open>res.result?.value\<close> for a \<open>res\<close> that is not \<open>null\<close> or \<open>undefined\<close>.\<close>

definition result_value :: "jsval \<Rightarrow> jsval" where
  "result_value res = opt_prop (own res ''result'') ''value''"

text \<open>
  The direct path of \<open>extractMetadata\<close> (lines 156-165). The result is \<open>Inr (Some meta)\<close>
  when the function returns the metadata, \<open>Inr None\<close> when it goes on to the search, and
  \<open>Inl\<close> when it throws. Inside \<open>try\<close>: the call may be rejected; reading
  \<open>res.result\<close> throws when \<open>res\<close> is \<open>undefined\<close> or \<open>null\<close>; a result that is
  not marked found and has a \<open>reason\<close> is logged, which throws when the reason has no
  string. The \<open>catch\<close> first logs \<open>e.message\<close> and then clears \<open>rootContextId\<close>: when
  the message of a rejection has no string the log throws, the id stays and the function
  throws. The message of a TypeError is a string.
\<close>

definition direct_path :: "cdp \<Rightarrow> net \<Rightarrow> ((exn + jsval option) \<times> cdp \<times> net) res" where
  "direct_path c n =
     (if truthy (rootContextId c) then
        bindR (await_call ''Runtime.evaluate'' (eval_params ''METADATA'' (rootContextId c)) c n)
          (\<lambda>(r, c', n').
            case r of
              Inl e \<Rightarrow>
                if to_string_ok (own e ''message'')
                then Done (Inr None, c'\<lparr>rootContextId := JNull\<rparr>, n')
                else Done (Inl TypeError, c', n')
            | Inr res \<Rightarrow>
                if nullish res then Done (Inr None, c'\<lparr>rootContextId := JNull\<rparr>, n')
                else if truthy (opt_prop (result_value res) ''found'') then
                  Done (Inr (Some (spread_with (result_value res)
                                     [(''contextId'', rootContextId c')])), c', n')
                else if truthy (opt_prop (result_value res) ''reason'') \<and>
                        \<not> to_string_ok (own (result_value res) ''reason'')
                  then Done (Inr None, c'\<lparr>rootContextId := JNull\<rparr>, n')
                else Done (Inr None, c', n'))
      else Done (Inr None, c, n))"

text \<open>
  One round of the search loop (lines 168-175) on the context \<open>ctx\<close>: \<open>Some meta\<close>
  when it returns. Everything is inside \<open>try\<close> with an empty \<open>catch\<close>; reading
  \<open>ctx.id\<close> of an entry that is \<open>undefined\<close> or \<open>null\<close> throws before any call.
\<close>

definition try_context :: "jsval \<Rightarrow> cdp \<Rightarrow> net \<Rightarrow> (jsval option \<times> cdp \<times> net) res" where
  "try_context ctx c n =
     (if nullish ctx then Done (None, c, n)
      else
        bindR (await_call ''Runtime.evaluate'' (eval_params ''METADATA'' (own ctx ''id'')) c n)
          (\<lambda>(r, c', n').
            case r of
              Inl e \<Rightarrow> Done (None, c', n')
            | Inr res \<Rightarrow>
                if nullish res then Done (None, c', n')
                else if truthy (opt_prop (result_value res) ''found'') then
                  Done (Some (spread_with (result_value res) [(''contextId'', own ctx ''id'')]), c', n')
                else Done (None, c', n')))"

text \<open>
  Where a round of the search leaves the feed and the context list: it used up a batch
  of events, or it changed neither.
\<close>

lemma try_context_progress:
  assumes "try_context ctx c n = Done (r, c', n')"
  shows "length (feed n') < length (feed n) \<or>
         (length (feed n') = length (feed n) \<and> contexts c' = contexts c)"
proof (cases "nullish ctx")
  case True
  with assms show ?thesis by (simp add: try_context_def)
next
  case False
  show ?thesis
  proof (cases "feed n")
    case Nil
    with assms False show ?thesis
      by (auto simp: try_context_def await_call_def receive_def call_def bindR_def Let_def
          split: res.splits option.splits outcome.splits sum.splits if_splits prod.splits)
  next
    case (Cons b bs)
    with assms False show ?thesis
      by (auto simp: try_context_def await_call_def receive_def call_def bindR_def Let_def
          set_state_def bindE_def
          split: res.splits option.splits outcome.splits sum.splits if_splits prod.splits)
  qed
qed

text \<open>
  The search loop \<open>for (const ctx of cdp.contexts)\<close> from index \<open>k\<close>: the iterator
  reads the array as it is at each step, and the array can change while the loop awaits.
  \<open>JNull\<close> is the \<open>return null\<close> after the loop. The loop never throws (its
  \<open>catch\<close> is empty), so what it returns is an \<open>Inr\<close>.
\<close>

function search :: "nat \<Rightarrow> cdp \<Rightarrow> net \<Rightarrow> ((exn + jsval) \<times> cdp \<times> net) res" where
  "search k c n =
     (if k < length (contexts c) then
        (case try_context (contexts c ! k) c n of
           Done (Some meta, c', n') \<Rightarrow> Done (Inr meta, c', n')
         | Done (None, c', n') \<Rightarrow> search (Suc k) c' n'
         | Throws e \<Rightarrow> Throws e
         | Hangs \<Rightarrow> Hangs
         | Crashes e \<Rightarrow> Crashes e)
      else Done (Inr JNull, c, n))"
  by pat_completeness auto
termination
  apply (relation "measures [\<lambda>(k, c, n). length (feed n), \<lambda>(k, c, n). length (contexts c) - k]")
   apply simp
  apply (auto dest!: try_context_progress)
  done

declare search.simps [simp del]

text \<open>
  \<open>extractMetadata\<close> (lines 155-176): the direct path, then the search. \<open>Inl\<close> when
  the function throws, \<open>Inr\<close> with the metadata or \<open>null\<close> when it returns.
\<close>

definition extractMetadata :: "cdp \<Rightarrow> net \<Rightarrow> ((exn + jsval) \<times> cdp \<times> net) res" where
  "extractMetadata c n =
     bindR (direct_path c n) (\<lambda>(r, c', n').
       case r of
         Inl e \<Rightarrow> Done (Inl e, c', n')
       | Inr (Some meta) \<Rightarrow> Done (Inr meta, c', n')
       | Inr None \<Rightarrow> search 0 c' n')"

text \<open>\<open>captureCSS\<close> (lines 198-208).\<close>

definition captureCSS :: "cdp \<Rightarrow> net \<Rightarrow> (jsval \<times> cdp \<times> net) res" where
  "captureCSS c n =
     (if \<not> truthy (rootContextId c) then Done (JNull, c, n)
      else
        bindR (await_call ''Runtime.evaluate'' (eval_params ''CSS'' (rootContextId c)) c n)
          (\<lambda>(r, c', n').
            case r of
              Inl e \<Rightarrow> Done (JStr [], c', n')
            | Inr res \<Rightarrow>
                if nullish res then Done (JStr [], c', n')
                else if truthy (opt_prop (result_value res) ''css'')
                  then Done (opt_prop (result_value res) ''css'', c', n')
                else Done (JStr [], c', n')))"

text \<open>
  \<open>captureHTML\<close> (lines 230-243): the value the script returned, or \<open>null\<close> when no
  context id is remembered, when the call fails, or when the value is missing or marked
  with \<open>error\<close>.
\<close>

definition captureHTML :: "cdp \<Rightarrow> net \<Rightarrow> (jsval \<times> cdp \<times> net) res" where
  "captureHTML c n =
     (if \<not> truthy (rootContextId c) then Done (JNull, c, n)
      else
        bindR (await_call ''Runtime.evaluate'' (eval_params ''HTML'' (rootContextId c)) c n)
          (\<lambda>(r, c', n').
            case r of
              Inl e \<Rightarrow> Done (JNull, c', n')
            | Inr res \<Rightarrow>
                if nullish res then Done (JNull, c', n')
                else if truthy (result_value res) \<and> \<not> truthy (own (result_value res) ''error'')
                  then Done (result_value res, c', n')
                else Done (JNull, c', n')))"

section \<open>The registry and the hub\<close>

text \<open>
  A registry entry (line 20, lines 354-367). The entry holds its \<open>cdp\<close> object; the
  socket is shared through its handle. \<open>snapshot\<close> and \<open>snapshotHash\<close> start as
  \<open>null\<close>.
\<close>

record cascade =
  cid :: string
  cdp :: cdp
  metadata :: jsval
  snapshot :: jsval
  css :: jsval
  snapshotHash :: jsval

text \<open>
  The subscribers' side: the clients of \<open>wss\<close> (\<open>None\<close> while \<open>wss\<close> is
  \<open>null\<close>), each with its \<open>readyState\<close> and the messages sent to it, and the
  messages handed to \<open>broadcast\<close> so far, in order.
\<close>

record hub =
  wss :: "(ready_state \<times> jsval list) list option"
  emitted :: "jsval list"

text \<open>\<open>broadcast(msg)\<close> (lines 438-443).\<close>

definition broadcast :: "jsval \<Rightarrow> hub \<Rightarrow> hub" where
  "broadcast msg h =
     h\<lparr>wss := (case wss h of
                 None \<Rightarrow> None
               | Some cs \<Rightarrow>
                   Some (map (\<lambda>(st, got). if st = OPEN then (st, got @ [msg]) else (st, got)) cs)),
       emitted := emitted h @ [msg]\<rparr>"

section \<open>The change publisher: \<open>updateSnapshots\<close>\<close>

text \<open>
  The callback that \<open>updateSnapshots\<close> runs for the entry \<open>c\<close> (lines 423-434). The
  callbacks of one round run concurrently, each on its own entry and session; they share
  the hub only. \<open>hashString\<close> throwing is caught by the \<open>try\<close> around the body.
\<close>

definition update_msg :: "string \<Rightarrow> jsval" where
  "update_msg i = JObj [(''type'', JStr ''snapshot_update''), (''cascadeId'', JStr i)]"

definition update_entry :: "cascade \<Rightarrow> net \<Rightarrow> hub \<Rightarrow> (cascade \<times> net \<times> hub) res" where
  "update_entry c n h =
     bindR (captureHTML (cdp c) n) (\<lambda>(snap, k, n').
       if truthy snap then
         (case hashString (own snap ''html'') of
            Inl e \<Rightarrow> Done (c\<lparr>cdp := k\<rparr>, n', h)
          | Inr hash \<Rightarrow>
              if \<not> strict_eq (JStr hash) (snapshotHash c) then
                Done (c\<lparr>cdp := k, snapshot := snap, snapshotHash := JStr hash\<rparr>, n',
                      broadcast (update_msg (cid c)) h)
              else Done (c\<lparr>cdp := k\<rparr>, n', h))
       else Done (c\<lparr>cdp := k\<rparr>, n', h))"

section \<open>The discovery cycle: \<open>discover\<close>\<close>

definition PORTS :: "nat list" where
  "PORTS = [9000, 9001, 9002, 9003]"

text \<open>
  What the GET of one endpoint ends in: an \<open>error\<close> event, no response within the
  2000 ms (the request is destroyed), or a body. \<open>getJson\<close> (lines 37-52) resolves with
  the empty list in the first two cases and when the body does not parse, and with the
  parsed value otherwise, whatever it is.
\<close>

datatype http_outcome = NetError | NoResponse | Body payload

fun getJson :: "http_outcome \<Rightarrow> jsval" where
  "getJson NetError = JArr []"
| "getJson NoResponse = JArr []"
| "getJson (Body b) = (case JSON_parse b of Inl e \<Rightarrow> JArr [] | Inr v \<Rightarrow> v)"

text \<open>\<open>hay.includes(needle)\<close> on strings.\<close>

fun contains :: "string \<Rightarrow> string \<Rightarrow> bool" where
  "contains needle [] = (needle = [])"
| "contains needle (ch # hay) =
     (take (length needle) (ch # hay) = needle \<or> contains needle hay)"

text \<open>
  \<open>v?.includes(needle)\<close>, as a truth value: \<open>undefined\<close> for \<open>undefined\<close> and
  \<open>null\<close>, the substring test on a string, membership in an array; numbers, booleans
  and objects have no \<open>includes\<close>.
\<close>

fun opt_includes :: "jsval \<Rightarrow> string \<Rightarrow> exn + bool" where
  "opt_includes JUndefined needle = Inr False"
| "opt_includes JNull needle = Inr False"
| "opt_includes (JStr hay) needle = Inr (contains needle hay)"
| "opt_includes (JArr xs) needle = Inr (JStr needle \<in> set xs)"
| "opt_includes _ needle = Inl TypeError"

text \<open>The filter of line 311.\<close>

definition is_workbench :: "jsval \<Rightarrow> exn + bool" where
  "is_workbench t =
     bindE (get_prop t ''url'') (\<lambda>u.
     bindE (opt_includes u ''workbench.html'') (\<lambda>a.
       if a then Inr True else opt_includes (own t ''title'') ''workbench''))"

fun filterE :: "('a \<Rightarrow> exn + bool) \<Rightarrow> 'a list \<Rightarrow> exn + 'a list" where
  "filterE p [] = Inr []"
| "filterE p (x # xs) =
     bindE (p x) (\<lambda>b. bindE (filterE p xs) (\<lambda>r. Inr (if b then x # r else r)))"

text \<open>
  The callback of line 309 for one port, given what \<open>getJson\<close> resolved with: only an
  array has \<open>filter\<close>.
\<close>

fun port_targets :: "jsval \<Rightarrow> nat \<Rightarrow> exn + jsval list" where
  "port_targets (JArr ts) port =
     bindE (filterE is_workbench ts) (\<lambda>ws.
       Inr (map (\<lambda>t. spread_with t [(''port'', JNum (int port))]) ws))"
| "port_targets _ port = Inl TypeError"

text \<open>
  Step 1 (lines 308-313). The callbacks run concurrently and \<open>Promise.all\<close> rejects as
  soon as one of them throws; the targets of a port are appended when its response
  arrives, here in the order of the ports.
\<close>

fun all_targets :: "(nat \<Rightarrow> http_outcome) \<Rightarrow> nat list \<Rightarrow> exn + jsval list" where
  "all_targets get [] = Inr []"
| "all_targets get (p # ps) =
     bindE (port_targets (getJson (get p)) p) (\<lambda>ts.
     bindE (all_targets get ps) (\<lambda>rest. Inr (ts @ rest)))"

text \<open>
  The process-wide state: the network, the registry \<open>cascades\<close> (a \<open>Map\<close>: the
  entries by key, in insertion order), the hub; and what the outside answers during a
  cycle: the endpoints, and the directory that \<open>getMostRecentBrainDir\<close> finds (its
  name, or \<open>None\<close> when the function returns \<open>null\<close>).
\<close>

record world =
  net :: net
  cascades :: "(string \<times> cascade) list"
  hub :: hub
  endpoints :: "nat \<Rightarrow> http_outcome"
  recent_brain :: "string option"

text \<open>\<open>Map.set\<close>: the value of an existing key is replaced in place.\<close>

fun map_set :: "string \<Rightarrow> 'v \<Rightarrow> (string \<times> 'v) list \<Rightarrow> (string \<times> 'v) list" where
  "map_set k v [] = [(k, v)]"
| "map_set k v ((k', v') # m) = (if k = k' then (k, v) # m else (k', v') # map_set k v m)"

text \<open>
  \<open>connectCDP(url)\<close> (lines 56-95). The result is \<open>Inl\<close> when the function throws:
  the URL is not a string, the socket reports an error instead of opening, or
  \<open>Runtime.enable\<close> is rejected (the socket then stays open). After the reply to
  \<open>Runtime.enable\<close> the function waits 500 ms, during which the next batch of events
  arrives.
\<close>

definition connectCDP :: "jsval \<Rightarrow> net \<Rightarrow> ((exn + cdp) \<times> net) res" where
  "connectCDP url n =
     (case url of
        JStr u \<Rightarrow>
          (let h = length (socks n); opens = (case dials n of [] \<Rightarrow> False | d # ds \<Rightarrow> d);
               n1 = n\<lparr>dials := tl (dials n)\<rparr>
           in if \<not> opens then Done (Inl NetworkError, n1\<lparr>socks := socks n1 @ [(url, CLOSED)]\<rparr>)
              else
                bindR (await_call ''Runtime.enable'' (JObj []) (new_session h)
                         (n1\<lparr>socks := socks n1 @ [(url, OPEN)]\<rparr>))
                  (\<lambda>(r, c1, n2).
                    case r of
                      Inl e \<Rightarrow> Done (Inl (Remote e), n2)
                    | Inr v \<Rightarrow> bindR (receive c1 n2) (\<lambda>(c2, n3). Done (Inr c2, n3))))
      | _ \<Rightarrow> Done (Inl SyntaxError, n))"

text \<open>
  The reuse of an existing entry (lines 322-334). The flag is \<open>True\<close> when the loop
  \<open>continue\<close>s with the entry kept. \<open>existing\<close> is the object the old registry holds,
  so what \<open>extractMetadata\<close> does to its session is written to the old registry too.
  The call of \<open>extractMetadata\<close> is outside any \<open>try\<close>: when it throws,
  \<open>discover\<close> does.
\<close>

definition reuse ::
  "string \<Rightarrow> cascade \<Rightarrow> (string \<times> cascade) list \<Rightarrow> world \<Rightarrow>
     (bool \<times> (string \<times> cascade) list \<times> world) res" where
  "reuse i existing newCascades w =
     (if is_open (net w) (ws (cdp existing)) then
        bindR (extractMetadata (cdp existing) (net w)) (\<lambda>(r, k, n').
          case r of
            Inl e \<Rightarrow> Throws e
          | Inr meta \<Rightarrow>
              if truthy meta then
                (let k' = (if truthy (own meta ''contextId'')
                           then k\<lparr>rootContextId := own meta ''contextId''\<rparr> else k);
                     e' = existing\<lparr>cdp := k',
                            metadata := spread_with (metadata existing) (props meta)\<rparr>
                 in Done (True, map_set i e' newCascades,
                          w\<lparr>net := n', cascades := map_set i e' (cascades w)\<rparr>))
              else
                Done (False, newCascades,
                      w\<lparr>net := n', cascades := map_set i (existing\<lparr>cdp := k\<rparr>) (cascades w)\<rparr>))
      else Done (False, newCascades, w))"

text \<open>
  The new connection (lines 337-375), all of it inside \<open>try\<close> with an empty
  \<open>catch\<close>: a title that cannot be logged (line 338), a connection that fails and an
  \<open>extractMetadata\<close> that throws all end the attempt with no entry. The log of line 350
  writes a directory name, and the log of line 369 comes after the entry is stored, so
  neither changes the outcome. When the metadata is not found the fresh socket is closed.
  The old socket of an entry whose refresh failed is not touched here.
\<close>

definition connect_new ::
  "string \<Rightarrow> jsval \<Rightarrow> (string \<times> cascade) list \<Rightarrow> world \<Rightarrow>
     ((string \<times> cascade) list \<times> world) res" where
  "connect_new i target newCascades w =
     (if \<not> to_string_ok (own target ''title'') then Done (newCascades, w)
      else
        bindR (connectCDP (own target ''webSocketDebuggerUrl'') (net w)) (\<lambda>(r, n1).
          case r of
            Inl e \<Rightarrow> Done (newCascades, w\<lparr>net := n1\<rparr>)
          | Inr c \<Rightarrow>
              bindR (extractMetadata c n1) (\<lambda>(r', c1, n2).
                case r' of
                  Inl e \<Rightarrow> Done (newCascades, w\<lparr>net := n2\<rparr>)
                | Inr meta \<Rightarrow>
                    if truthy meta then
                      (let c2 = (if truthy (own meta ''contextId'')
                                 then c1\<lparr>rootContextId := own meta ''contextId''\<rparr> else c1);
                           conversationId =
                             (if truthy (own meta ''conversationId'')
                              then own meta ''conversationId''
                              else case recent_brain w of None \<Rightarrow> JNull | Some d \<Rightarrow> JStr d)
                       in bindR (captureCSS c2 n2) (\<lambda>(sheet, c3, n3).
                            Done (map_set i
                                    \<lparr>cid = i, cdp = c3,
                                     metadata = JObj
                                       [(''windowTitle'', own target ''title''),
                                        (''chatTitle'', own meta ''chatTitle''),
                                        (''isActive'', own meta ''isActive''),
                                        (''conversationId'', conversationId),
                                        (''url'', if truthy (own meta ''url'')
                                                  then own meta ''url'' else JNull)],
                                     snapshot = JNull, css = sheet, snapshotHash = JNull\<rparr>
                                    newCascades,
                                  w\<lparr>net := n3\<rparr>)))
                    else Done (newCascades, w\<lparr>net := set_state (ws c1) CLOSING n2\<rparr>))))"

text \<open>
  The body of the loop over the targets (lines 318-376). \<open>hashString\<close> is called
  outside the \<open>try\<close>: when it throws, \<open>discover\<close> does.
\<close>

definition process_target ::
  "jsval \<Rightarrow> (string \<times> cascade) list \<Rightarrow> world \<Rightarrow> ((string \<times> cascade) list \<times> world) res" where
  "process_target target newCascades w =
     (case hashString (own target ''webSocketDebuggerUrl'') of
        Inl e \<Rightarrow> Throws e
      | Inr i \<Rightarrow>
          (case map_of (cascades w) i of
             Some existing \<Rightarrow>
               bindR (reuse i existing newCascades w) (\<lambda>(kept, newCascades', w').
                 if kept then Done (newCascades', w') else connect_new i target newCascades' w')
           | None \<Rightarrow> connect_new i target newCascades w))"

fun reconcile ::
  "jsval list \<Rightarrow> (string \<times> cascade) list \<Rightarrow> world \<Rightarrow> ((string \<times> cascade) list \<times> world) res" where
  "reconcile [] newCascades w = Done (newCascades, w)"
| "reconcile (t # ts) newCascades w =
     bindR (process_target t newCascades w) (\<lambda>(newCascades', w'). reconcile ts newCascades' w')"

text \<open>
  The cleanup (lines 379-384): for an old entry whose key the new registry does not have,
  \<open>c.metadata.chatTitle\<close> is logged and the socket is closed. The log is outside the
  \<open>try\<close>: a metadata that is \<open>null\<close> or \<open>undefined\<close>, or a title that has no
  string, makes \<open>discover\<close> throw there.
\<close>

fun cleanup :: "(string \<times> cascade) list \<Rightarrow> (string \<times> cascade) list \<Rightarrow> net \<Rightarrow> exn + net" where
  "cleanup [] newCascades n = Inr n"
| "cleanup ((i, c) # old) newCascades n =
     (if map_of newCascades i = None then
        bindE (get_prop (metadata c) ''chatTitle'') (\<lambda>chatTitle.
          if to_string_ok chatTitle
          then cleanup old newCascades (set_state (ws (cdp c)) CLOSING n)
          else Inl TypeError)
      else cleanup old newCascades n)"

text \<open>\<open>title.split(' - ')\<close>.\<close>

fun split_dash :: "string \<Rightarrow> string \<Rightarrow> string list" where
  "split_dash acc [] = [rev acc]"
| "split_dash acc (ch # rest) =
     (if take 3 (ch # rest) = '' - '' then rev acc # split_dash [] (drop 2 rest)
      else split_dash (ch # acc) rest)"

text \<open>
  \<open>extractProjectName\<close> (lines 393-418). A title that is neither falsy nor a string
  has no \<open>split\<close>.
\<close>

definition extractProjectName :: "jsval \<Rightarrow> exn + jsval" where
  "extractProjectName title =
     (if \<not> truthy title then Inr (JStr [])
      else case title of
        JStr t \<Rightarrow>
          (let parts = split_dash [] t in
           if 3 \<le> length parts then Inr (JStr (parts ! (length parts - 2)))
           else if length parts = 2 then Inr (JStr (parts ! 0))
           else Inr title)
      | _ \<Rightarrow> Inl TypeError)"

fun mapE :: "('a \<Rightarrow> exn + 'b) \<Rightarrow> 'a list \<Rightarrow> exn + 'b list" where
  "mapE f [] = Inr []"
| "mapE f (x # xs) = bindE (f x) (\<lambda>y. bindE (mapE f xs) (\<lambda>ys. Inr (y # ys)))"

definition list_item :: "cascade \<Rightarrow> exn + jsval" where
  "list_item c =
     bindE (extractProjectName (own (metadata c) ''windowTitle'')) (\<lambda>projectName.
       Inr (JObj [(''id'', JStr (cid c)),
                  (''title'', own (metadata c) ''chatTitle''),
                  (''window'', own (metadata c) ''windowTitle''),
                  (''projectName'', projectName),
                  (''active'', own (metadata c) ''isActive'')]))"

text \<open>\<open>broadcastCascadeList\<close> (lines 445-454).\<close>

definition broadcastCascadeList :: "world \<Rightarrow> world res" where
  "broadcastCascadeList w =
     (case mapE list_item (map snd (cascades w)) of
        Inl e \<Rightarrow> Throws e
      | Inr items \<Rightarrow>
          Done (w\<lparr>hub := broadcast (JObj [(''type'', JStr ''cascade_list''), (''cascades'', JArr items)])
                          (hub w)\<rparr>))"

text \<open>
  \<open>discover\<close> up to line 387: the targets, the loop, the cleanup, and the new registry
  installed. The flag is \<open>changed\<close>, which compares the sizes of the two maps.
\<close>

definition discover_install :: "world \<Rightarrow> (bool \<times> world) res" where
  "discover_install w =
     (case all_targets (endpoints w) PORTS of
        Inl e \<Rightarrow> Throws e
      | Inr allTargets \<Rightarrow>
          bindR (reconcile allTargets [] w) (\<lambda>(newCascades, w1).
            case cleanup (cascades w1) newCascades (net w1) of
              Inl e \<Rightarrow> Throws e
            | Inr n2 \<Rightarrow>
                Done (length (cascades w1) \<noteq> length newCascades,
                      w1\<lparr>net := n2, cascades := newCascades\<rparr>)))"

text \<open>\<open>discover\<close> (lines 306-390): line 389 after the rest.\<close>

definition discover :: "world \<Rightarrow> world res" where
  "discover w =
     bindR (discover_install w) (\<lambda>(changed, w2).
       if changed then broadcastCascadeList w2 else Done w2)"


text \<open>
  The sessions that are live for an identity: the open sockets whose URL hashes to it.
\<close>

definition live_sessions :: "net \<Rightarrow> string \<Rightarrow> nat list" where
  "live_sessions n i =
     filter (\<lambda>h. snd (socks n ! h) = OPEN \<and> hashString (fst (socks n ! h)) = Inr i)
       [0 ..< length (socks n)]"

text \<open>
  Examples: a session on socket 0 that remembers the context id \<open>x\<close>, and a network
  with that one socket open and the given batches of events to come.
\<close>

definition remembering :: "jsval \<Rightarrow> cdp" where
  "remembering x = (new_session 0)\<lparr>rootContextId := x\<rparr>"

definition one_socket :: "event list list \<Rightarrow> net" where
  "one_socket batches =
     \<lparr>socks = [(JStr ''ws://127.0.0.1:9000/devtools/page/A'', OPEN)], feed = batches, dials = []\<rparr>"

text \<open>
  More examples. A reply \<open>{id, result: {result: {value: v}}}\<close>, as
  \<open>Runtime.evaluate\<close> answers with the value \<open>v\<close> of the expression. The page that
  port 9000 advertises, and its identity.
\<close>

definition reply :: "int \<Rightarrow> jsval \<Rightarrow> event" where
  "reply i v = Message (Json (JObj [(''id'', JNum i), (''result'', JObj [(''result'', JObj [(''value'', v)])])]))"

definition page_url :: string where
  "page_url = ''ws://127.0.0.1:9000/devtools/page/A''"

definition advert :: jsval where
  "advert = JArr [JObj [(''title'', JStr ''proj - workbench''),
       (''url'', JStr ''vscode-file://vscode-app/workbench.html''),
       (''webSocketDebuggerUrl'', JStr page_url)]]"

text \<open>
  An entry of the registry for that page, on socket 0, remembering context 5, with two
  calls made so far.
\<close>

definition old_entry :: cascade where
  "old_entry =
     \<lparr>cid = ''y9tvjh'', cdp = (new_session 0)\<lparr>idCounter := 3, rootContextId := JNum 5\<rparr>,
      metadata = JObj [(''windowTitle'', JStr ''proj - workbench''), (''chatTitle'', JStr ''Agent'')],
      snapshot = JNull, css = JStr [], snapshotHash = JNull\<rparr>"

text \<open>
  A cycle in which the old session's context is gone and the page answers a new
  connection: the old socket is open; the direct call on it (id 3) is answered with an
  error; the new socket opens, announces context 9 and answers \<open>Runtime.enable\<close>; the
  search finds the metadata in context 9; the style capture is answered.
\<close>

definition stale_world :: world where
  "stale_world =
     \<lparr>net = \<lparr>socks = [(JStr page_url, OPEN)],
         feed = [[Message (Json (JObj [(''id'', JNum 3), (''error'', JObj [(''message'', JStr ''gone'')])]))],
                 [Message (Json (JObj [(''method'', JStr ''Runtime.executionContextCreated''),
                      (''params'', JObj [(''context'', JObj [(''id'', JNum 9)])])])),
                  Message (Json (JObj [(''id'', JNum 1), (''result'', JObj [])]))],
                 [],
                 [reply 2 (JObj [(''found'', JBool True), (''chatTitle'', JStr ''Agent''),
                     (''isActive'', JBool True), (''url'', JStr ''u'')])],
                 [reply 3 (JObj [(''css'', JStr ''body{}'')])]],
         dials = [True]\<rparr>,
      cascades = [(''y9tvjh'', old_entry)],
      hub = \<lparr>wss = Some [(OPEN, [])], emitted = []\<rparr>,
      endpoints = (\<lambda>p. if p = 9000 then Body (Json advert) else NetError),
      recent_brain = None\<rparr>"


text \<open>A cycle in which no endpoint answers, and one in which port 9000 answers with an object.\<close>

definition quiet_world :: world where
  "quiet_world =
     \<lparr>net = \<lparr>socks = [(JStr page_url, OPEN)], feed = [], dials = []\<rparr>,
      cascades = [(''y9tvjh'', old_entry)],
      hub = \<lparr>wss = Some [(OPEN, [])], emitted = []\<rparr>,
      endpoints = (\<lambda>p. NetError),
      recent_brain = None\<rparr>"

definition object_world :: world where
  "object_world = quiet_world\<lparr>endpoints :=
      (\<lambda>p. if p = 9000 then Body (Json (JObj [(''error'', JStr ''Not Found'')])) else NetError)\<rparr>"

text \<open>
  A new entry (no snapshot yet) on a session that remembers context 5; a captured
  payload with the given \<open>html\<close> and \<open>bodyBg\<close>; a hub with one subscriber.
\<close>

definition fresh_entry :: cascade where
  "fresh_entry =
     \<lparr>cid = ''y9tvjh'', cdp = remembering (JNum 5), metadata = JObj [],
      snapshot = JNull, css = JStr [], snapshotHash = JNull\<rparr>"

definition page :: "string \<Rightarrow> string \<Rightarrow> jsval" where
  "page html bg = JObj [(''html'', JStr html), (''bodyBg'', JStr bg), (''bodyColor'', JStr ''rgb(0, 0, 0)'')]"

definition no_hub :: hub where
  "no_hub = \<lparr>wss = Some [(OPEN, [])], emitted = []\<rparr>"

section \<open>Basic facts\<close>

lemma bindE_Inl [simp]: "bindE (Inl e) f = Inl e"
  by (simp add: bindE_def)

lemma bindE_Inr [simp]: "bindE (Inr x) f = f x"
  by (simp add: bindE_def)

subsection \<open>The listeners\<close>

lemma tracker_frame:
  "handlers (tracker msg c) = handlers c"
  "promises (tracker msg c) = promises c"
  "idCounter (tracker msg c) = idCounter c"
  "outbox (tracker msg c) = outbox c"
  "ws (tracker msg c) = ws c"
  "rootContextId (tracker msg c) = rootContextId c"
  by (auto simp: tracker_def tracker_body_def bindE_def split: sum.splits if_splits)

lemma handler_other:
  "\<not> nullish data \<Longrightarrow> \<not> strict_eq (own data ''id'') (JNum (int i)) \<Longrightarrow>
   handler i (Json data) c = Inr c"
  by (simp add: handler_def get_prop_def)

lemma run_handlers_none:
  "\<not> nullish data \<Longrightarrow> \<forall>i\<in>set hs. \<not> strict_eq (own data ''id'') (JNum (int i)) \<Longrightarrow>
   run_handlers hs (Json data) c = Inr c"
  by (induction hs) (simp_all add: handler_other)

lemma run_handlers_reply:
  "\<not> nullish data \<Longrightarrow> own data ''id'' = JNum (int j) \<Longrightarrow> distinct hs \<Longrightarrow>
   run_handlers hs (Json data) c =
     Inr (if j \<in> set hs
          then settle j (if truthy (own data ''error'') then Rejected (own data ''error'')
                         else Resolved (own data ''result''))
                 (c\<lparr>handlers := remove1 j (handlers c)\<rparr>)
          else c)"
proof (induction hs arbitrary: c)
  case Nil
  then show ?case by simp
next
  case (Cons i hs)
  show ?case
  proof (cases "i = j")
    case True
    with Cons.prems have "\<forall>k\<in>set hs. \<not> strict_eq (own data ''id'') (JNum (int k))"
      by auto
    with Cons.prems True show ?thesis
      by (simp add: handler_def get_prop_def run_handlers_none)
  next
    case False
    with Cons show ?thesis
      by (simp add: handler_other)
  qed
qed

lemma tracker_plain:
  "\<not> nullish data \<Longrightarrow> own data ''method'' = JUndefined \<Longrightarrow> tracker (Json data) c = c"
  by (simp add: tracker_def tracker_body_def get_prop_def)

lemma on_message_reply:
  assumes "\<not> nullish data" "own data ''method'' = JUndefined"
    "own data ''id'' = JNum (int j)" "distinct (handlers c)"
  shows "on_message (Json data) c =
     Inr (if j \<in> set (handlers c)
          then settle j (if truthy (own data ''error'') then Rejected (own data ''error'')
                         else Resolved (own data ''result''))
                 (c\<lparr>handlers := remove1 j (handlers c)\<rparr>)
          else c)"
  using assms by (simp add: on_message_def tracker_plain run_handlers_reply)


lemma findIndex_none:
  "\<forall>d\<in>set xs. p d = Inr False \<Longrightarrow> findIndex p xs = Inr (- 1)"
  by (induction xs) simp_all








lemma settle_handlers: "handlers (settle i out c) = handlers c"
  by (simp add: settle_def split: option.splits)

lemma settle_promises_other: "k \<noteq> i \<Longrightarrow> promises (settle i out c) k = promises c k"
  by (simp add: settle_def split: option.splits)

lemma handler_keeps_pending:
  assumes "\<not> nullish d" "\<not> strict_eq (own d ''id'') (JNum (int i))"
  shows "\<exists>c'. handler k (Json d) c = Inr c' \<and> pending c' i = pending c i"
proof (cases "strict_eq (own d ''id'') (JNum (int k))")
  case True
  with assms have "k \<noteq> i" by auto
  with assms True show ?thesis
    by (auto simp: handler_def get_prop_def Let_def pending_def settle_handlers
        settle_promises_other)
next
  case False
  with assms show ?thesis by (simp add: handler_other)
qed

lemma run_handlers_keeps_pending:
  assumes "\<not> nullish d" "\<not> strict_eq (own d ''id'') (JNum (int i))"
  shows "\<exists>c'. run_handlers hs (Json d) c = Inr c' \<and> pending c' i = pending c i"
proof (induction hs arbitrary: c)
  case Nil
  then show ?case by simp
next
  case (Cons k hs)
  from handler_keeps_pending [OF assms, of k c]
  obtain c1 where c1: "handler k (Json d) c = Inr c1" "pending c1 i = pending c i"
    by blast
  from Cons.IH [of c1] c1 show ?case by auto
qed

lemma tracker_pending: "pending (tracker m c) i = pending c i"
  by (simp add: pending_def tracker_frame)

lemma on_event_keeps_pending:
  assumes "is_frame e" "\<not> answers i e"
  shows "\<exists>c'. on_event e c = Inr c' \<and> pending c' i = pending c i"
proof (cases e)
  case (Message m)
  with assms obtain d where d: "m = Json d" "\<not> nullish d"
    "\<not> strict_eq (own d ''id'') (JNum (int i))"
    by (cases m) auto
  from run_handlers_keeps_pending [OF d(2,3), of "handlers c" "tracker m c"] Message d(1)
  show ?thesis by (auto simp: on_message_def tracker_pending)
qed simp_all

lemma run_keeps_pending:
  assumes "\<forall>e\<in>set es. is_frame e \<and> \<not> answers i e"
  shows "\<exists>c'. run es c = Inr c' \<and> pending c' i = pending c i"
  using assms
proof (induction es arbitrary: c)
  case Nil
  then show ?case by simp
next
  case (Cons e es)
  then have "is_frame e" "\<not> answers i e" by simp_all
  from on_event_keeps_pending [OF this, of c]
  obtain c1 where c1: "on_event e c = Inr c1" "pending c1 i = pending c i"
    by blast
  from Cons.IH [of c1] Cons.prems c1 show ?case by auto
qed

lemma on_message_unmatched:
  assumes "\<not> nullish d" "\<forall>k\<in>set (handlers c). \<not> strict_eq (own d ''id'') (JNum (int k))"
  shows "on_message (Json d) c = Inr (tracker (Json d) c)"
  using assms by (simp add: on_message_def tracker_frame run_handlers_none)

lemma run_append:
  "run (es @ fs) c = bindE (run es c) (run fs)"
  by (induction es arbitrary: c) (simp_all add: bindE_def split: sum.splits)

lemma handler_answer:
  "handler i (Json (JObj [(''id'', JNum (int i)), (''result'', v)])) c =
     Inr (settle i (Resolved v) (c\<lparr>handlers := remove1 i (handlers c)\<rparr>))"
  by (simp add: handler_def get_prop_def nullish_def Let_def)

lemma settle_keeps: "promises c i = Some out \<Longrightarrow> promises (settle k out' c) i = Some out"
  by (cases "k = i") (simp_all add: settle_def split: option.splits)

lemma run_handlers_keeps_settled:
  assumes "\<not> nullish d"
  shows "promises c i = Some out \<Longrightarrow>
    \<exists>c'. run_handlers hs (Json d) c = Inr c' \<and> promises c' i = Some out"
proof (induction hs arbitrary: c)
  case Nil
  then show ?case by simp
next
  case (Cons k hs)
  have "\<exists>c1. handler k (Json d) c = Inr c1 \<and> promises c1 i = Some out"
    using assms Cons.prems by (simp add: handler_def get_prop_def Let_def settle_keeps)
  then obtain c1 where c1: "handler k (Json d) c = Inr c1" "promises c1 i = Some out"
    by blast
  from Cons.IH [OF c1(2)] c1(1) show ?case by simp
qed

lemma run_handlers_answer:
  "i \<in> set hs \<Longrightarrow> promises c i = None \<Longrightarrow>
   \<exists>c'. run_handlers hs (Json (JObj [(''id'', JNum (int i)), (''result'', v)])) c = Inr c' \<and>
        promises c' i = Some (Resolved v)"
proof (induction hs arbitrary: c)
  case Nil
  then show ?case by simp
next
  case (Cons k hs)
  let ?d = "JObj [(''id'', JNum (int i)), (''result'', v)]"
  have d: "\<not> nullish ?d" by (simp add: nullish_def)
  show ?case
  proof (cases "k = i")
    case True
    let ?c1 = "settle i (Resolved v) (c\<lparr>handlers := remove1 i (handlers c)\<rparr>)"
    have p: "promises ?c1 i = Some (Resolved v)"
      using Cons.prems by (simp add: settle_def)
    from run_handlers_keeps_settled [OF d p] True show ?thesis
      by (simp add: handler_answer)
  next
    case False
    with Cons.prems have "i \<in> set hs" by simp
    from False have "handler k (Json ?d) c = Inr c"
      by (simp add: handler_other nullish_def)
    with Cons.IH [OF \<open>i \<in> set hs\<close> Cons.prems(2)] show ?thesis by simp
  qed
qed

section \<open>Claims about the protocol client\<close>

text \<open>
  Claim C5 (call correlation). Two calls \<open>i\<close> and \<open>j\<close> are in flight on one session
  (each id has one listener). When the replies \<open>{id: i, result: vi}\<close> and
  \<open>{id: j, result: vj}\<close> arrive, in the reverse order or in the order of the ids, the
  promise of \<open>i\<close> is resolved with \<open>vi\<close> and that of \<open>j\<close> with \<open>vj\<close>, and neither
  call is pending any more: each caller gets the reply that bears its own id.
\<close>

theorem call_correlation:
  assumes d: "distinct (handlers c)"
    and p: "pending c i" "pending c j" "i \<noteq> j"
    and ri: "ri = JObj [(''id'', JNum (int i)), (''result'', vi)]"
    and rj: "rj = JObj [(''id'', JNum (int j)), (''result'', vj)]"
  shows
    "(\<exists>c'. run [Message (Json rj), Message (Json ri)] c = Inr c' \<and>
        promises c' i = Some (Resolved vi) \<and> promises c' j = Some (Resolved vj) \<and>
        \<not> pending c' i \<and> \<not> pending c' j) \<and>
     (\<exists>c'. run [Message (Json ri), Message (Json rj)] c = Inr c' \<and>
        promises c' i = Some (Resolved vi) \<and> promises c' j = Some (Resolved vj) \<and>
        \<not> pending c' i \<and> \<not> pending c' j)"
proof -
  from p have old: "i \<in> set (handlers c)" "j \<in> set (handlers c)"
    "promises c i = None" "promises c j = None"
    by (simp_all add: pending_def)
  have di: "\<not> nullish ri" "own ri ''method'' = JUndefined" "own ri ''id'' = JNum (int i)"
    "own ri ''error'' = JUndefined" "own ri ''result'' = vi"
    by (simp_all add: ri nullish_def)
  have dj: "\<not> nullish rj" "own rj ''method'' = JUndefined" "own rj ''id'' = JNum (int j)"
    "own rj ''error'' = JUndefined" "own rj ''result'' = vj"
    by (simp_all add: rj nullish_def)
  have a: "\<exists>c'. run [Message (Json rj), Message (Json ri)] c = Inr c' \<and>
        promises c' i = Some (Resolved vi) \<and> promises c' j = Some (Resolved vj) \<and>
        \<not> pending c' i \<and> \<not> pending c' j"
    using d old p(3)
    by (simp add: on_message_reply [OF di(1-3)] on_message_reply [OF dj(1-3)] di dj settle_def
        pending_def)
  have b: "\<exists>c'. run [Message (Json ri), Message (Json rj)] c = Inr c' \<and>
        promises c' i = Some (Resolved vi) \<and> promises c' j = Some (Resolved vj) \<and>
        \<not> pending c' i \<and> \<not> pending c' j"
    using d old p(3)
    by (simp add: on_message_reply [OF di(1-3)] on_message_reply [OF dj(1-3)] di dj settle_def
        pending_def)
  from a b show ?thesis by blast
qed

theorem call_correlation_witness:
  "pending (snd (call ''B'' JNull (snd (call ''A'' JNull (new_session 0))))) 1 \<and>
   pending (snd (call ''B'' JNull (snd (call ''A'' JNull (new_session 0))))) 2 \<and>
   (\<exists>c'. run [Message (Json (JObj [(''id'', JNum 2), (''result'', JStr ''two'')])),
              Message (Json (JObj [(''id'', JNum 1), (''result'', JStr ''one'')]))]
          (snd (call ''B'' JNull (snd (call ''A'' JNull (new_session 0))))) = Inr c' \<and>
        promises c' 1 = Some (Resolved (JStr ''one'')) \<and>
        promises c' 2 = Some (Resolved (JStr ''two'')))"
proof -
  let ?c = "snd (call ''B'' JNull (snd (call ''A'' JNull (new_session 0))))"
  have d: "distinct (handlers ?c)" and p: "pending ?c 1" "pending ?c 2"
    by (simp_all add: call_def new_session_def pending_def)
  from call_correlation [OF d p _ refl refl, where vi = "JStr ''one''" and vj = "JStr ''two''"] p
  show ?thesis by auto
qed




text \<open>
  Claim C1, as the code has it. \<open>call\<close> arms no timer, so the wait for a reply has no
  bound: while the events on the session are frames none of which bears the id of a
  pending call (time passing among them, however long), the call stays pending: its
  listener stays registered and its promise unsettled, and no Timeout error is produced.
  A reply bearing the id that arrives after them still resolves the caller. A reply whose
  id matches no registered listener leaves every listener and every promise as it was.
\<close>

theorem call_waits_unbounded:
  "(pending c i \<and> (\<forall>e\<in>set es. is_frame e \<and> \<not> answers i e) \<longrightarrow>
      (\<exists>c'. run es c = Inr c' \<and> pending c' i) \<and>
      (\<exists>c'. run (es @ [Message (Json (JObj [(''id'', JNum (int i)), (''result'', v)]))]) c = Inr c' \<and>
         promises c' i = Some (Resolved v))) \<and>
   (\<not> nullish d \<and> (\<forall>k\<in>set (handlers c). \<not> strict_eq (own d ''id'') (JNum (int k))) \<longrightarrow>
      (\<exists>c'. on_message (Json d) c = Inr c' \<and> handlers c' = handlers c \<and>
         promises c' = promises c))"
proof -
  let ?r = "JObj [(''id'', JNum (int i)), (''result'', v)]"
  have waits: "(\<exists>c'. run es c = Inr c' \<and> pending c' i) \<and>
      (\<exists>c'. run (es @ [Message (Json ?r)]) c = Inr c' \<and> promises c' i = Some (Resolved v))"
    if p: "pending c i" and q: "\<forall>e\<in>set es. is_frame e \<and> \<not> answers i e"
  proof -
    from run_keeps_pending [OF q, of c] p
    obtain c1 where c1: "run es c = Inr c1" "pending c1 i"
      by auto
    then have "i \<in> set (handlers (tracker (Json ?r) c1))" "promises (tracker (Json ?r) c1) i = None"
      by (simp_all add: pending_def tracker_frame)
    from run_handlers_answer [OF this, of v]
    obtain c2 where "on_message (Json ?r) c1 = Inr c2" "promises c2 i = Some (Resolved v)"
      by (auto simp: on_message_def tracker_frame)
    then have "run (es @ [Message (Json ?r)]) c = Inr c2 \<and> promises c2 i = Some (Resolved v)"
      using c1(1) by (simp add: run_append)
    with c1 show ?thesis by blast
  qed
  have drop: "\<exists>c'. on_message (Json d) c = Inr c' \<and> handlers c' = handlers c \<and>
         promises c' = promises c"
    if "\<not> nullish d" "\<forall>k\<in>set (handlers c). \<not> strict_eq (own d ''id'') (JNum (int k))"
    using that by (simp add: on_message_unmatched tracker_frame)
  from waits drop show ?thesis by blast
qed

theorem call_waits_unbounded_witness:
  "pending one_call 1 \<and>
   (\<exists>c'. run [TimePassed 30000, Message (Json (JObj [(''id'', JNum 7), (''result'', JNull)]))]
           one_call = Inr c' \<and> pending c' 1) \<and>
   (\<exists>c'. run [TimePassed 30000, Message (Json (JObj [(''id'', JNum 7), (''result'', JNull)])),
              Message (Json (JObj [(''id'', JNum 1), (''result'', JStr ''late'')]))]
           one_call = Inr c' \<and> promises c' 1 = Some (Resolved (JStr ''late''))) \<and>
   (\<exists>c'. on_message (Json (JObj [(''id'', JNum 7), (''result'', JNull)])) one_call = Inr c' \<and>
      handlers c' = handlers one_call \<and> promises c' = promises one_call)"
proof -
  have p: "pending one_call 1"
    by (simp add: pending_def one_call_def call_def new_session_def)
  have h: "handlers one_call = [1]"
    by (simp add: one_call_def call_def new_session_def)
  from p h call_waits_unbounded [of one_call 1
      "[TimePassed 30000, Message (Json (JObj [(''id'', JNum 7), (''result'', JNull)]))]"
      "JStr ''late''" "JObj [(''id'', JNum 7), (''result'', JNull)]"]
  show ?thesis by (simp add: nullish_def)
qed

text \<open>
  Claim C1 as stated fails: one hour after the call, with no reply, the slot is still
  registered and the caller has received nothing; the reply that arrives then is not
  discarded, it resolves the caller.
\<close>

theorem call_timeout_counterexample:
  "pending one_call 1 \<and>
   run [TimePassed 3600000] one_call = Inr one_call \<and>
   (case run [TimePassed 3600000,
              Message (Json (JObj [(''id'', JNum 1), (''result'', JStr ''late'')]))] one_call of
      Inl e \<Rightarrow> False
    | Inr c' \<Rightarrow> promises c' 1 = Some (Resolved (JStr ''late'')) \<and> \<not> pending c' 1)"
  by (simp add: pending_def one_call_def call_def new_session_def on_message_def tracker_def
      tracker_body_def handler_def get_prop_def nullish_def settle_def)

text \<open>
  Claim C2, as the code has it. The session registers no \<open>close\<close> listener, so when
  the connection terminates nothing runs: a call that was pending stays pending (its
  promise is never settled, no Closed error is produced), and so it remains through
  whatever follows that is not a message.
\<close>

theorem close_leaves_calls_pending:
  assumes "pending c i" and "\<forall>e\<in>set es. \<not> is_message e"
  shows "\<exists>c'. run (Closed # es) c = Inr c' \<and> pending c' i \<and> promises c' = promises c"
proof -
  from assms(2) have "run (Closed # es) c = Inr c"
  proof (induction es)
    case Nil
    then show ?case by simp
  next
    case (Cons e es)
    then show ?case by (cases e) simp_all
  qed
  with assms(1) show ?thesis by simp
qed

theorem close_leaves_calls_pending_witness:
  "pending one_call 1 \<and>
   (\<exists>c'. run [Closed, Errored, TimePassed 60000] one_call = Inr c' \<and> pending c' 1 \<and>
      promises c' = promises one_call)"
proof -
  have p: "pending one_call 1"
    by (simp add: pending_def one_call_def call_def new_session_def)
  from p close_leaves_calls_pending [OF p, of "[Errored, TimePassed 60000]"]
  show ?thesis by simp
qed

text \<open>
  Claim C2 as stated fails: the connection closes with one call pending, and the call is
  still pending afterwards, its promise unsettled.
\<close>

theorem close_fails_calls_counterexample:
  "pending one_call 1 \<and> run [Closed] one_call = Inr one_call \<and>
   promises one_call 1 = None"
  by (simp add: pending_def one_call_def call_def new_session_def)

section \<open>Facts about the evaluations and the cycle\<close>

lemma bindR_simps [simp]:
  "bindR (Done x) f = f x"
  "bindR (Throws e) f = Throws e"
  "bindR Hangs f = Hangs"
  "bindR (Crashes e) f = Crashes e"
  by (simp_all add: bindR_def)

lemma search_end:
  "\<not> k < length (contexts c) \<Longrightarrow> search k c n = Done (Inr JNull, c, n)"
  by (subst search.simps) simp

lemma search_here:
  "k < length (contexts c) \<Longrightarrow>
   search k c n =
     (case try_context (contexts c ! k) c n of
        Done (Some meta, c', n') \<Rightarrow> Done (Inr meta, c', n')
      | Done (None, c', n') \<Rightarrow> search (Suc k) c' n'
      | Throws e \<Rightarrow> Throws e
      | Hangs \<Rightarrow> Hangs
      | Crashes e \<Rightarrow> Crashes e)"
  by (subst search.simps) simp

lemmas search_eval = search_end search_here

lemmas session_defs = call_def new_session_def on_message_def tracker_def tracker_body_def
  handler_def get_prop_def opt_prop_def nullish_def settle_def

lemmas await_defs = await_call_def receive_def set_state_def eval_params_def result_value_def
  spread_with_def

lemmas hash_defs = hash_code_def hash_step_def toString36_def digit36_def



















lemma page_hash: "toString36 (sint (hash_code page_url)) = ''y9tvjh''"
  by (simp add: page_url_def hash_defs)

lemma stale_targets:
  "all_targets (endpoints stale_world) PORTS =
     Inr [JObj [(''title'', JStr ''proj - workbench''),
       (''url'', JStr ''vscode-file://vscode-app/workbench.html''),
       (''webSocketDebuggerUrl'', JStr page_url), (''port'', JNum 9000)]]"
  by (simp add: stale_world_def advert_def PORTS_def is_workbench_def get_prop_def nullish_def spread_with_def)



lemma stale_install:
  "\<exists>w2. discover_install stale_world = Done (False, w2) \<and>
     map fst (cascades w2) = [''y9tvjh''] \<and> live_sessions (net w2) ''y9tvjh'' = [0, 1] \<and>
     hub w2 = hub stale_world"
  apply (simp add: discover_install_def stale_targets)
  apply (simp add: stale_world_def old_entry_def reply_def page_hash process_target_def reuse_def
      is_open_def extractMetadata_def direct_path_def session_defs await_defs search_eval)
  apply (simp add: connect_new_def connectCDP_def)
  apply (simp add: session_defs await_defs)
  apply (simp add: extractMetadata_def direct_path_def)
  apply (simp add: search_eval try_context_def session_defs await_defs)
  apply (simp add: captureCSS_def session_defs await_defs)
  apply (simp add: live_sessions_def page_hash upt_rec)
  done

lemma failed_fetch_contributes_nothing:
  "port_targets (getJson NetError) p = Inr []"
  "port_targets (getJson NoResponse) p = Inr []"
  "port_targets (getJson (Body Garbled)) p = Inr []"
  by simp_all

lemma two_captures:
  "\<exists>k1 k2.
     captureHTML (cdp fresh_entry) (one_socket [[reply 1 a]]) = Done (a', k1, one_socket []) \<and>
     captureHTML k1 (one_socket [[reply 2 b]]) = Done (b', k2, one_socket [])"
  if "a' = (if truthy a \<and> \<not> truthy (own a ''error'') then a else JNull)"
     "b' = (if truthy b \<and> \<not> truthy (own b ''error'') then b else JNull)"
  using that
  by (simp add: captureHTML_def fresh_entry_def remembering_def one_socket_def reply_def
      session_defs await_defs)

section \<open>Claims about the evaluations, the publisher and the cycle\<close>




text \<open>
  Claim C4 (fingerprint dedup). An entry captures the same payload in two consecutive
  rounds (the capture succeeds, and the payload has the fingerprint \<open>hash\<close>). The first
  round emits one \<open>snapshot_update\<close> and stores the payload and its fingerprint when the
  fingerprint differs from the stored one, and emits and stores nothing when it is the
  same; the second round emits nothing and leaves the snapshot and the fingerprint as the
  first left them. So the two rounds emit one event, not two, and none when the entry
  already had this fingerprint.
\<close>

theorem fingerprint_dedup:
  assumes r1: "captureHTML (cdp c) n = Done (snap, k1, n1)"
    and r2: "captureHTML k1 n1' = Done (snap, k2, n2)"
    and ok: "truthy snap"
    and fp: "hashString (own snap ''html'') = Inr hash"
  shows "\<exists>c1 h1. update_entry c n h = Done (c1, n1, h1) \<and>
      update_entry c1 n1' h1 = Done (c1\<lparr>cdp := k2\<rparr>, n2, h1) \<and>
      emitted h1 = (if strict_eq (JStr hash) (snapshotHash c) then emitted h
                    else emitted h @ [update_msg (cid c)]) \<and>
      snapshot c1 = (if strict_eq (JStr hash) (snapshotHash c) then snapshot c else snap) \<and>
      snapshotHash c1 = (if strict_eq (JStr hash) (snapshotHash c) then snapshotHash c
                         else JStr hash)"
  using assms by (simp add: update_entry_def broadcast_def)

theorem fingerprint_dedup_witness:
  "\<exists>c1 h1 k2.
     update_entry fresh_entry (one_socket [[reply 1 (page ''<p>hi</p>'' ''white'')]]) no_hub
       = Done (c1, one_socket [], h1) \<and>
     update_entry c1 (one_socket [[reply 2 (page ''<p>hi</p>'' ''white'')]]) h1
       = Done (c1\<lparr>cdp := k2\<rparr>, one_socket [], h1) \<and>
     emitted h1 = [update_msg ''y9tvjh''] \<and>
     snapshot c1 = page ''<p>hi</p>'' ''white''"
proof -
  let ?a = "page ''<p>hi</p>'' ''white''"
  have t: "truthy ?a" and e: "\<not> truthy (own ?a ''error'')"
    by (simp_all add: page_def)
  from two_captures [of ?a ?a ?a ?a] t e
  obtain k1 k2 where
    r1: "captureHTML (cdp fresh_entry) (one_socket [[reply 1 ?a]]) = Done (?a, k1, one_socket [])" and
    r2: "captureHTML k1 (one_socket [[reply 2 ?a]]) = Done (?a, k2, one_socket [])"
    by auto
  have fp: "hashString (own ?a ''html'') = Inr (toString36 (sint (hash_code ''<p>hi</p>'')))"
    by (simp add: page_def)
  from fingerprint_dedup [OF r1 r2 t fp, of no_hub]
  show ?thesis by (auto simp: fresh_entry_def no_hub_def)
qed

text \<open>
  Claim C10 (the fingerprint is that of \<open>html\<close> alone). Two successful captures of an
  entry, one round after the other, have the same \<open>html\<close> string and may differ in
  everything else (\<open>bodyBg\<close>, \<open>bodyColor\<close>): the second round stores no new snapshot
  and emits no event; the entry and the hub stay as the first round left them (only the
  session has made one more call).
\<close>

theorem style_changes_not_published:
  assumes r1: "captureHTML (cdp c) n = Done (snap1, k1, n1)"
    and r2: "captureHTML k1 n1' = Done (snap2, k2, n2)"
    and ok: "truthy snap1" "truthy snap2"
    and html: "own snap1 ''html'' = JStr s" "own snap2 ''html'' = JStr s"
  shows "\<exists>c1 h1. update_entry c n h = Done (c1, n1, h1) \<and>
      update_entry c1 n1' h1 = Done (c1\<lparr>cdp := k2\<rparr>, n2, h1)"
  using assms by (simp add: update_entry_def)

theorem style_changes_not_published_witness:
  "page ''<p>hi</p>'' ''white'' \<noteq> page ''<p>hi</p>'' ''black'' \<and>
   (\<exists>c1 h1 k2.
     update_entry fresh_entry (one_socket [[reply 1 (page ''<p>hi</p>'' ''white'')]]) no_hub
       = Done (c1, one_socket [], h1) \<and>
     update_entry c1 (one_socket [[reply 2 (page ''<p>hi</p>'' ''black'')]]) h1
       = Done (c1\<lparr>cdp := k2\<rparr>, one_socket [], h1))"
proof -
  let ?a = "page ''<p>hi</p>'' ''white''"
  let ?b = "page ''<p>hi</p>'' ''black''"
  have t: "truthy ?a" "truthy ?b" and e: "\<not> truthy (own ?a ''error'')" "\<not> truthy (own ?b ''error'')"
    and h: "own ?a ''html'' = JStr ''<p>hi</p>''" "own ?b ''html'' = JStr ''<p>hi</p>''"
    and d: "?a \<noteq> ?b"
    by (simp_all add: page_def)
  from two_captures [of ?a ?a ?b ?b] t e
  obtain k1 k2 where
    r1: "captureHTML (cdp fresh_entry) (one_socket [[reply 1 ?a]]) = Done (?a, k1, one_socket [])" and
    r2: "captureHTML k1 (one_socket [[reply 2 ?b]]) = Done (?b, k2, one_socket [])"
    by auto
  from style_changes_not_published [OF r1 r2 t h, of no_hub] d
  show ?thesis by auto
qed




text \<open>
  Claim C3 does not hold of the code. In the cycle \<open>stale_world\<close> the refresh on the open
  socket 0 fails, a second socket is opened for the same page and its entry takes the
  key in the new registry; the cleanup closes only the sockets of keys that are gone, so
  socket 0 is never closed: after the cycle the identity has two open sockets.
\<close>

theorem second_session_left_open:
  "(case discover stale_world of
      Done w \<Rightarrow> map fst (cascades w) = [''y9tvjh''] \<and> live_sessions (net w) ''y9tvjh'' = [0, 1]
    | _ \<Rightarrow> False)"
proof -
  from stale_install obtain w2 where "discover_install stale_world = Done (False, w2)"
    "map fst (cascades w2) = [''y9tvjh'']" "live_sessions (net w2) ''y9tvjh'' = [0, 1]"
    by auto
  then show ?thesis by (simp add: discover_def)
qed

text \<open>
  Claim C7 does not hold of the code for a payload that parses but is not an array: the
  endpoint of port 9000 answers with the object \<open>{error: 'Not Found'}\<close>, \<open>getJson\<close>
  resolves with it, \<open>list.filter\<close> throws and the whole cycle fails with a TypeError. With
  no endpoint answering at all the cycle does not fail.
\<close>

theorem object_payload_fails_cycle:
  "discover object_world = Throws TypeError \<and> discover quiet_world \<noteq> Throws TypeError"
  by (simp add: discover_def discover_install_def object_world_def quiet_world_def old_entry_def
      PORTS_def get_prop_def nullish_def broadcastCascadeList_def)

end
